theory Spec2Isabelle
  imports Main
begin

section \<open>The resilient fetch path of llxt\<close>

text \<open>
  The development follows the Go packages \<^verbatim>\<open>internal/errors\<close> (imported as \<^verbatim>\<open>errs\<close>)
  and \<^verbatim>\<open>internal/http\<close> (package \<^verbatim>\<open>httpclient\<close>): the error codes and the error
  builder of the HTTP domain, the configuration and construction of the client, and the
  classification of one GET by \<^verbatim>\<open>Fetcher.Fetch\<close>.
\<close>

subsection \<open>Package errs: codes, domains, builders\<close>

definition CodeNotFound :: string where
  "CodeNotFound = ''not_found''"

definition CodeNetworkFailure :: string where
  "CodeNetworkFailure = ''network_failure''"

definition CodeRateLimited :: string where
  "CodeRateLimited = ''rate_limited''"

definition CodeTimeout :: string where
  "CodeTimeout = ''timeout''"

definition DomainHTTP :: string where
  "DomainHTTP = ''http''"

text \<open>
  A Go \<^verbatim>\<open>error\<close> that comes out of the transport is kept as its message. The values
  attached with \<^verbatim>\<open>With\<close> are of type \<^verbatim>\<open>any\<close>; the fetch path attaches strings and
  integers only.
\<close>

type_synonym GoError = string

datatype ContextValue = CtxString string | CtxInt int

text \<open>
  The error value built by the chained calls on an error builder: each call of the chain
  records what it is given, \<^verbatim>\<open>Errorf\<close> and \<^verbatim>\<open>Wrapf\<close> end the chain with the message,
  \<^verbatim>\<open>Wrapf\<close> keeping the wrapped cause as well.
\<close>

record OopsError =
  err_domain :: string
  err_tags :: "string list"
  err_code :: string
  err_context :: "string \<rightharpoonup> ContextValue"
  err_hint :: string
  err_msg :: string
  err_cause :: "GoError option"

definition In_domain :: "string \<Rightarrow> OopsError" where
  "In_domain d =
     \<lparr>err_domain = d, err_tags = [], err_code = [], err_context = Map.empty,
      err_hint = [], err_msg = [], err_cause = None\<rparr>"

definition Tags :: "string list \<Rightarrow> OopsError \<Rightarrow> OopsError" where
  "Tags ts b = b\<lparr>err_tags := err_tags b @ ts\<rparr>"

definition Code :: "string \<Rightarrow> OopsError \<Rightarrow> OopsError" where
  "Code c b = b\<lparr>err_code := c\<rparr>"

definition With :: "string \<Rightarrow> ContextValue \<Rightarrow> OopsError \<Rightarrow> OopsError" where
  "With k v b = b\<lparr>err_context := (err_context b)(k \<mapsto> v)\<rparr>"

definition Hint :: "string \<Rightarrow> OopsError \<Rightarrow> OopsError" where
  "Hint h b = b\<lparr>err_hint := h\<rparr>"

definition Errorf :: "string \<Rightarrow> OopsError \<Rightarrow> OopsError" where
  "Errorf m b = b\<lparr>err_msg := m\<rparr>"

definition Wrapf :: "GoError \<Rightarrow> string \<Rightarrow> OopsError \<Rightarrow> OopsError" where
  "Wrapf e m b = b\<lparr>err_msg := m, err_cause := Some e\<rparr>"

definition HTTPErr :: OopsError where
  "HTTPErr = Tags [''http'', ''network''] (In_domain DomainHTTP)"

subsection \<open>Formatting an integer in decimal, as the verb d of Errorf does\<close>

definition digit_char :: "nat \<Rightarrow> char" where
  "digit_char d = ''0123456789'' ! d"

function decimal_nat :: "nat \<Rightarrow> string" where
  "decimal_nat n =
     (if n < 10 then [digit_char n]
      else decimal_nat (n div 10) @ [digit_char (n mod 10)])"
  by pat_completeness auto
termination
  by (relation "measure (\<lambda>n. n)") auto

declare decimal_nat.simps [simp del]

definition fmt_d :: "int \<Rightarrow> string" where
  "fmt_d i = (if i < 0 then CHR ''-'' # decimal_nat (nat (- i)) else decimal_nat (nat i))"

subsection \<open>Package httpclient: the response and Fetch\<close>

definition statusNotFound :: int where
  "statusNotFound = 404"

definition statusRateLimited :: int where
  "statusRateLimited = 429"

definition statusBadRequest :: int where
  "statusBadRequest = 400"

text \<open>
  What \<^verbatim>\<open>Fetch\<close> reads of a response: \<^verbatim>\<open>StatusCode()\<close>, \<^verbatim>\<open>Header()\<close> and
  \<^verbatim>\<open>String()\<close>. A header maps a key to the list of its values.
\<close>

record Response =
  StatusCode :: int
  Header :: "string \<rightharpoonup> string list"
  RespString :: string

text \<open>
  \<^verbatim>\<open>Header.Get\<close>: the first value stored under the key, the empty string when there is
  none. The key \<^verbatim>\<open>Retry-After\<close> that \<^verbatim>\<open>Fetch\<close> asks for is in canonical form already.
\<close>

definition Header_Get :: "(string \<rightharpoonup> string list) \<Rightarrow> string \<Rightarrow> string" where
  "Header_Get h k = (case h k of None \<Rightarrow> [] | Some [] \<Rightarrow> [] | Some (v # _) \<Rightarrow> v)"

text \<open>
  \<^verbatim>\<open>Fetch\<close> returns the Go pair \<^verbatim>\<open>(string, error)\<close>, the error \<^verbatim>\<open>nil\<close> being
  \<open>None\<close>. The parameter \<open>Get\<close> is \<^verbatim>\<open>f.client.R().Get\<close>: the request issued through
  the fetcher's client, which ends in a transport error or in a response.
\<close>

definition Fetch :: "(string \<Rightarrow> GoError + Response) \<Rightarrow> string \<Rightarrow> string \<times> OopsError option" where
  "Fetch Get url =
     (case Get url of
        Inl err \<Rightarrow>
          ([], Some (Wrapf err ''failed to fetch content''
                      (With ''url'' (CtxString url)
                        (Code CodeNetworkFailure HTTPErr))))
      | Inr resp \<Rightarrow>
          if StatusCode resp = statusNotFound then
            ([], Some (Errorf ''resource not found''
                        (With ''status'' (CtxInt (StatusCode resp))
                          (With ''url'' (CtxString url)
                            (Code CodeNotFound HTTPErr)))))
          else if StatusCode resp = statusRateLimited then
            ([], Some (Errorf ''rate limited by server''
                        (Hint ''Wait before retrying or use a different source''
                          (With ''retry_after'' (CtxString (Header_Get (Header resp) ''Retry-After''))
                            (With ''url'' (CtxString url)
                              (Code CodeRateLimited HTTPErr))))))
          else if StatusCode resp \<ge> statusBadRequest then
            ([], Some (Errorf (''HTTP error: '' @ fmt_d (StatusCode resp))
                        (With ''status'' (CtxInt (StatusCode resp))
                          (With ''url'' (CtxString url)
                            (Code CodeNetworkFailure HTTPErr)))))
          else (RespString resp, None))"

text \<open>
  \<^verbatim>\<open>FetchLLMsTxt\<close>: the pointer \<^verbatim>\<open>fullURL\<close> is an option, \<^verbatim>\<open>nil\<close> being \<open>None\<close>.
\<close>

definition FetchLLMsTxt ::
  "(string \<Rightarrow> GoError + Response) \<Rightarrow> string \<Rightarrow> string option \<Rightarrow> bool \<Rightarrow> string \<times> OopsError option" where
  "FetchLLMsTxt Get url fullURL full =
     (let targetURL = (if full \<and> fullURL \<noteq> None then the fullURL else url)
      in Fetch Get targetURL)"


subsection \<open>Package httpclient: configuration\<close>

text \<open>A \<^verbatim>\<open>time.Duration\<close> counts nanoseconds.\<close>

type_synonym Duration = int

definition Millisecond :: Duration where
  "Millisecond = 1000000"

definition Second :: Duration where
  "Second = 1000 * Millisecond"

record Config =
  Timeout :: Duration
  RetryCount :: int
  RetryWaitTime :: Duration
  RetryMaxWaitTime :: Duration
  Verbose :: bool

definition defaultTimeout :: Duration where
  "defaultTimeout = 30 * Second"

definition defaultRetryCount :: int where
  "defaultRetryCount = 3"

definition defaultRetryWaitTime :: Duration where
  "defaultRetryWaitTime = 100 * Millisecond"

definition defaultRetryMaxWaitTime :: Duration where
  "defaultRetryMaxWaitTime = 2 * Second"

definition DefaultConfig :: Config where
  "DefaultConfig =
     \<lparr>Timeout = defaultTimeout, RetryCount = defaultRetryCount,
      RetryWaitTime = defaultRetryWaitTime, RetryMaxWaitTime = defaultRetryMaxWaitTime,
      Verbose = False\<rparr>"

subsection \<open>Package httpclient: the client and its circuit breaker\<close>

definition cbFailureThreshold :: nat where
  "cbFailureThreshold = 3"

definition cbSuccessThreshold :: nat where
  "cbSuccessThreshold = 1"

definition cbResetTimeout :: Duration where
  "cbResetTimeout = 30 * Second"

text \<open>
  Modelled from the spec: the type \<^verbatim>\<open>resty.CircuitBreakerState\<close> belongs to the HTTP
  library and is not among the sources; the spec names the states Closed, Open and
  HalfOpen. Here it is only the type of the two arguments of the state-change callback.
\<close>

datatype CircuitBreakerState = Closed | Open | HalfOpen

text \<open>
  Modelled from the spec: the policy \<^verbatim>\<open>resty.CircuitBreaker5xxPolicy\<close> belongs to the
  HTTP library and is not among the sources; the spec: any 5xx response counts as
  failure.
\<close>

definition CircuitBreaker5xxPolicy :: "Response \<Rightarrow> bool" where
  "CircuitBreaker5xxPolicy resp = (500 \<le> StatusCode resp \<and> StatusCode resp \<le> 599)"

text \<open>
  The two callbacks that \<^verbatim>\<open>NewClient\<close> registers only write to the package's logger;
  a callback is kept as the function from its arguments to the entry it logs.
\<close>

datatype LogValue = LogState CircuitBreakerState | LogString string | LogInt int

record LogRecord =
  log_level :: string
  log_msg :: string
  log_attrs :: "(string \<times> LogValue) list"

text \<open>
  The breaker as \<^verbatim>\<open>NewClient\<close> configures it: the constructor of the library takes
  the two thresholds, the reset timeout and the policies, and \<^verbatim>\<open>OnStateChange\<close> adds a
  callback. What the library does with these values while requests run is not part of
  this repository and is not modelled.
\<close>

record CircuitBreaker =
  failureThreshold :: nat
  successThreshold :: nat
  resetTimeout :: Duration
  policies :: "(Response \<Rightarrow> bool) list"
  onStateChange :: "(CircuitBreakerState \<Rightarrow> CircuitBreakerState \<Rightarrow> LogRecord) list"

definition NewCircuitBreakerWithCount ::
  "nat \<Rightarrow> nat \<Rightarrow> Duration \<Rightarrow> (Response \<Rightarrow> bool) list \<Rightarrow> CircuitBreaker" where
  "NewCircuitBreakerWithCount f s t ps =
     \<lparr>failureThreshold = f, successThreshold = s, resetTimeout = t, policies = ps,
      onStateChange = []\<rparr>"

definition OnStateChange ::
  "(CircuitBreakerState \<Rightarrow> CircuitBreakerState \<Rightarrow> LogRecord) \<Rightarrow> CircuitBreaker \<Rightarrow> CircuitBreaker" where
  "OnStateChange h cb = cb\<lparr>onStateChange := onStateChange cb @ [h]\<rparr>"

text \<open>
  The settings of a client that \<^verbatim>\<open>NewClient\<close> touches, and the library's setters, each
  storing its argument in the client it returns.
\<close>

record Client =
  timeout :: Duration
  retryCount :: int
  retryWaitTime :: Duration
  retryMaxWaitTime :: Duration
  circuitBreaker :: "CircuitBreaker option"
  retryHooks :: "(string \<Rightarrow> int \<Rightarrow> LogRecord) list"
  debug :: bool

definition SetTimeout :: "Duration \<Rightarrow> Client \<Rightarrow> Client" where
  "SetTimeout d c = c\<lparr>timeout := d\<rparr>"

definition SetRetryCount :: "int \<Rightarrow> Client \<Rightarrow> Client" where
  "SetRetryCount n c = c\<lparr>retryCount := n\<rparr>"

definition SetRetryWaitTime :: "Duration \<Rightarrow> Client \<Rightarrow> Client" where
  "SetRetryWaitTime d c = c\<lparr>retryWaitTime := d\<rparr>"

definition SetRetryMaxWaitTime :: "Duration \<Rightarrow> Client \<Rightarrow> Client" where
  "SetRetryMaxWaitTime d c = c\<lparr>retryMaxWaitTime := d\<rparr>"

definition SetCircuitBreaker :: "CircuitBreaker \<Rightarrow> Client \<Rightarrow> Client" where
  "SetCircuitBreaker cb c = c\<lparr>circuitBreaker := Some cb\<rparr>"

definition AddRetryHooks :: "(string \<Rightarrow> int \<Rightarrow> LogRecord) \<Rightarrow> Client \<Rightarrow> Client" where
  "AddRetryHooks h c = c\<lparr>retryHooks := retryHooks c @ [h]\<rparr>"

definition SetDebug :: "bool \<Rightarrow> Client \<Rightarrow> Client" where
  "SetDebug b c = c\<lparr>debug := b\<rparr>"

text \<open>
  Go panics when a \<^verbatim>\<open>nil\<close> pointer is dereferenced. The pointer \<^verbatim>\<open>cfg\<close> is an
  option, and reading a field through it goes through \<open>deref\<close>, so that the panic is
  a result of the model.
\<close>

datatype panic = NilPointerDereference

definition deref :: "'a option \<Rightarrow> panic + 'a" where
  "deref p = (case p of None \<Rightarrow> Inl NilPointerDereference | Some v \<Rightarrow> Inr v)"

text \<open>
  \<^verbatim>\<open>NewClient\<close>. The parameter \<open>new\<close> is the client that \<^verbatim>\<open>resty.New()\<close> returns,
  whatever its initial settings are.
\<close>

definition NewClient :: "Client \<Rightarrow> Config option \<Rightarrow> panic + Client" where
  "NewClient new cfg0 =
     (let cfg = (if cfg0 = None then Some DefaultConfig else cfg0);
          cb = OnStateChange
                 (\<lambda>oldState newState.
                    \<lparr>log_level = ''WARN'', log_msg = ''circuit breaker state changed'',
                     log_attrs = [(''from'', LogState oldState), (''to'', LogState newState)]\<rparr>)
                 (NewCircuitBreakerWithCount cbFailureThreshold cbSuccessThreshold
                    cbResetTimeout [CircuitBreaker5xxPolicy])
      in case deref cfg of
           Inl p \<Rightarrow> Inl p
         | Inr c \<Rightarrow>
             let client =
               AddRetryHooks
                 (\<lambda>url attempt.
                    \<lparr>log_level = ''DEBUG'', log_msg = ''retrying request'',
                     log_attrs = [(''url'', LogString url), (''attempt'', LogInt attempt)]\<rparr>)
                 (SetCircuitBreaker cb
                   (SetRetryMaxWaitTime (RetryMaxWaitTime c)
                     (SetRetryWaitTime (RetryWaitTime c)
                       (SetRetryCount (RetryCount c)
                         (SetTimeout (Timeout c) new)))))
             in Inr (if Verbose c then SetDebug True client else client))"

section \<open>Properties of Fetch\<close>


lemmas builder_defs = In_domain_def Tags_def Code_def With_def Hint_def Errorf_def Wrapf_def
  HTTPErr_def

lemmas status_defs = statusNotFound_def statusRateLimited_def statusBadRequest_def

lemmas code_defs = CodeNotFound_def CodeNetworkFailure_def CodeRateLimited_def

text \<open>
  C10. Whenever \<^verbatim>\<open>Fetch\<close> returns an error (transport failure, status 404, status 429
  or any other status from 400 on), the content it returns is the empty string; a
  non-empty content comes with no error only.
\<close>

theorem Fetch_error_content_empty:
  "(snd (Fetch Get url) \<noteq> None \<longrightarrow> fst (Fetch Get url) = [])
   \<and> (fst (Fetch Get url) \<noteq> [] \<longrightarrow> snd (Fetch Get url) = None)"
  by (simp add: Fetch_def split: sum.split)

theorem Fetch_error_content_empty_witness:
  "snd (Fetch (\<lambda>_. Inr \<lparr>StatusCode = 503, Header = Map.empty, RespString = ''busy''\<rparr>)
          ''https://example.com/llms.txt'') \<noteq> None
   \<and> fst (Fetch (\<lambda>_. Inr \<lparr>StatusCode = 503, Header = Map.empty, RespString = ''busy''\<rparr>)
          ''https://example.com/llms.txt'') = []
   \<and> fst (Fetch (\<lambda>_. Inr \<lparr>StatusCode = 200, Header = Map.empty, RespString = ''# docs''\<rparr>)
          ''https://example.com/llms.txt'') \<noteq> []
   \<and> snd (Fetch (\<lambda>_. Inr \<lparr>StatusCode = 200, Header = Map.empty, RespString = ''# docs''\<rparr>)
          ''https://example.com/llms.txt'') = None"
  using Fetch_error_content_empty
    [of "\<lambda>_. Inr \<lparr>StatusCode = 503, Header = Map.empty, RespString = ''busy''\<rparr>"
        "''https://example.com/llms.txt''"]
    Fetch_error_content_empty
    [of "\<lambda>_. Inr \<lparr>StatusCode = 200, Header = Map.empty, RespString = ''# docs''\<rparr>"
        "''https://example.com/llms.txt''"]
  by (simp add: Fetch_def status_defs)


text \<open>
  C1. For every status code obtained by \<^verbatim>\<open>Fetch\<close>: the error has the code
  \<^verbatim>\<open>not_found\<close> exactly when the status is 404; the code \<^verbatim>\<open>rate_limited\<close> exactly
  when it is 429; the code \<^verbatim>\<open>network_failure\<close> together with the status in its context
  (the error for any other status from 400 on) exactly when the status is at least 400
  and neither 404 nor 429; and the body comes back as content with no error exactly when
  the status is below 400.
\<close>

theorem Fetch_classification:
  assumes "Get url = Inr resp"
  shows "((\<exists>e. snd (Fetch Get url) = Some e \<and> err_code e = CodeNotFound)
            \<longleftrightarrow> StatusCode resp = 404)
       \<and> ((\<exists>e. snd (Fetch Get url) = Some e \<and> err_code e = CodeRateLimited)
            \<longleftrightarrow> StatusCode resp = 429)
       \<and> ((\<exists>e. snd (Fetch Get url) = Some e \<and> err_code e = CodeNetworkFailure
                \<and> err_context e ''status'' = Some (CtxInt (StatusCode resp)))
            \<longleftrightarrow> (StatusCode resp \<ge> 400 \<and> StatusCode resp \<noteq> 404 \<and> StatusCode resp \<noteq> 429))
       \<and> (Fetch Get url = (RespString resp, None) \<longleftrightarrow> StatusCode resp < 400)"
  using assms
  by (simp add: Fetch_def builder_defs status_defs code_defs)

theorem Fetch_classification_witness:
  "(\<lambda>_. Inr \<lparr>StatusCode = 404, Header = Map.empty, RespString = ''gone''\<rparr>)
       ''https://example.com/llms.txt''
     = (Inr \<lparr>StatusCode = 404, Header = Map.empty, RespString = ''gone''\<rparr> :: GoError + Response)
   \<and> (\<exists>e. snd (Fetch (\<lambda>_. Inr \<lparr>StatusCode = 404, Header = Map.empty, RespString = ''gone''\<rparr>)
                ''https://example.com/llms.txt'') = Some e \<and> err_code e = CodeNotFound)"
  using Fetch_classification
    [of "\<lambda>_. Inr \<lparr>StatusCode = 404, Header = Map.empty, RespString = ''gone''\<rparr>"
        "''https://example.com/llms.txt''"
        "\<lparr>StatusCode = 404, Header = Map.empty, RespString = ''gone''\<rparr>"]
  by simp

text \<open>
  C5, as stated, fails where the alternate URL is present and empty: with the flag set,
  \<^verbatim>\<open>FetchLLMsTxt\<close> then requests the empty URL and does not fall back to the primary
  one. Here the primary URL answers 200 and every other URL fails in the transport.
\<close>

theorem FetchLLMsTxt_empty_alternate_counterexample:
  "FetchLLMsTxt
     (\<lambda>u. if u = ''https://example.com/llms.txt''
          then Inr \<lparr>StatusCode = 200, Header = Map.empty, RespString = ''# docs''\<rparr>
          else Inl ''unsupported protocol scheme'')
     ''https://example.com/llms.txt'' (Some []) True
   = ([], Some \<lparr>err_domain = ''http'', err_tags = [''http'', ''network''],
                 err_code = ''network_failure'',
                 err_context = [''url'' \<mapsto> CtxString []],
                 err_hint = [], err_msg = ''failed to fetch content'',
                 err_cause = Some ''unsupported protocol scheme''\<rparr>)
   \<and> Fetch
     (\<lambda>u. if u = ''https://example.com/llms.txt''
          then Inr \<lparr>StatusCode = 200, Header = Map.empty, RespString = ''# docs''\<rparr>
          else Inl ''unsupported protocol scheme'')
     ''https://example.com/llms.txt''
   = (''# docs'', None)"
  by (simp add: FetchLLMsTxt_def Fetch_def builder_defs status_defs code_defs DomainHTTP_def)

text \<open>
  C5, amended. For every primary URL, alternate URL and flag: without the flag
  \<^verbatim>\<open>FetchLLMsTxt\<close> is \<^verbatim>\<open>Fetch\<close> on the primary URL, whether the alternate is present
  or not; with the flag it is \<^verbatim>\<open>Fetch\<close> on the alternate URL whenever the alternate is
  present (a pointer that is not \<^verbatim>\<open>nil\<close>, the empty string included), and \<^verbatim>\<open>Fetch\<close> on
  the primary URL when it is absent. Nothing is added to what \<^verbatim>\<open>Fetch\<close> does.
\<close>

theorem FetchLLMsTxt_selection:
  "FetchLLMsTxt Get url fullURL False = Fetch Get url
   \<and> FetchLLMsTxt Get url None True = Fetch Get url
   \<and> FetchLLMsTxt Get url (Some alt) True = Fetch Get alt"
  by (simp add: FetchLLMsTxt_def)

text \<open>
  C6. The error for a 429 response should carry the target URL, the status code, the
  \<^verbatim>\<open>Retry-After\<close> value and the fixed hint. The code misses the status code: at a 429
  response with \<^verbatim>\<open>Retry-After: 5\<close> the error has the URL and the \<^verbatim>\<open>Retry-After\<close>
  value in its context and nothing else, so neither an entry \<^verbatim>\<open>status\<close> nor the number
  429, while the errors that the same function returns for 404 and for 503 both have the
  status in their context.
\<close>

theorem rate_limited_status_missing:
  "snd (Fetch (\<lambda>_. Inr \<lparr>StatusCode = 429, Header = [''Retry-After'' \<mapsto> [''5'']], RespString = []\<rparr>)
          ''https://example.com/llms.txt'')
   = Some \<lparr>err_domain = ''http'', err_tags = [''http'', ''network''],
            err_code = ''rate_limited'',
            err_context = [''url'' \<mapsto> CtxString ''https://example.com/llms.txt'',
                           ''retry_after'' \<mapsto> CtxString ''5''],
            err_hint = ''Wait before retrying or use a different source'',
            err_msg = ''rate limited by server'',
            err_cause = None\<rparr>
   \<and> [''url'' \<mapsto> CtxString ''https://example.com/llms.txt'',
       ''retry_after'' \<mapsto> CtxString ''5''] ''status'' = None
   \<and> CtxInt 429 \<notin> ran [''url'' \<mapsto> CtxString ''https://example.com/llms.txt'',
       ''retry_after'' \<mapsto> CtxString ''5'']
   \<and> map_option err_context
        (snd (Fetch (\<lambda>_. Inr \<lparr>StatusCode = 404, Header = Map.empty, RespString = []\<rparr>)
                ''https://example.com/llms.txt''))
       = Some [''url'' \<mapsto> CtxString ''https://example.com/llms.txt'', ''status'' \<mapsto> CtxInt 404]
   \<and> map_option err_context
        (snd (Fetch (\<lambda>_. Inr \<lparr>StatusCode = 503, Header = Map.empty, RespString = []\<rparr>)
                ''https://example.com/llms.txt''))
       = Some [''url'' \<mapsto> CtxString ''https://example.com/llms.txt'', ''status'' \<mapsto> CtxInt 503]"
  by (auto simp add: Fetch_def builder_defs status_defs code_defs DomainHTTP_def Header_Get_def
      ran_def)

text \<open>
  What the error for a 429 response does carry, for every response with that status:
  the code \<^verbatim>\<open>rate_limited\<close>, the target URL, under \<^verbatim>\<open>retry_after\<close> the value of the
  \<^verbatim>\<open>Retry-After\<close> header (its first value when the header is present, the empty string
  otherwise), and the fixed hint; the content is empty.
\<close>

theorem rate_limited_error:
  assumes "Get url = Inr resp" and "StatusCode resp = 429"
  shows "\<exists>e. Fetch Get url = ([], Some e)
           \<and> err_code e = CodeRateLimited
           \<and> err_context e ''url'' = Some (CtxString url)
           \<and> err_context e ''retry_after''
               = Some (CtxString (Header_Get (Header resp) ''Retry-After''))
           \<and> (\<forall>v vs. Header resp ''Retry-After'' = Some (v # vs)
                 \<longrightarrow> err_context e ''retry_after'' = Some (CtxString v))
           \<and> err_hint e = ''Wait before retrying or use a different source''"
  using assms
  by (auto simp add: Fetch_def builder_defs status_defs Header_Get_def)

theorem rate_limited_error_witness:
  "(\<lambda>_. Inr \<lparr>StatusCode = 429, Header = [''Retry-After'' \<mapsto> [''5'']], RespString = []\<rparr>)
       ''https://example.com/llms.txt''
     = (Inr \<lparr>StatusCode = 429, Header = [''Retry-After'' \<mapsto> [''5'']], RespString = []\<rparr>
          :: GoError + Response)
   \<and> StatusCode \<lparr>StatusCode = 429, Header = [''Retry-After'' \<mapsto> [''5'']], RespString = []\<rparr> = 429
   \<and> Header \<lparr>StatusCode = 429, Header = [''Retry-After'' \<mapsto> [''5'']], RespString = []\<rparr>
        ''Retry-After'' = Some [''5'']
   \<and> (\<exists>e. Fetch (\<lambda>_. Inr \<lparr>StatusCode = 429, Header = [''Retry-After'' \<mapsto> [''5'']], RespString = []\<rparr>)
               ''https://example.com/llms.txt'' = ([], Some e)
          \<and> err_code e = CodeRateLimited
          \<and> err_context e ''url'' = Some (CtxString ''https://example.com/llms.txt'')
          \<and> err_context e ''retry_after'' = Some (CtxString ''5'')
          \<and> err_hint e = ''Wait before retrying or use a different source'')"
  using rate_limited_error
    [of "\<lambda>_. Inr \<lparr>StatusCode = 429, Header = [''Retry-After'' \<mapsto> [''5'']], RespString = []\<rparr>"
        "''https://example.com/llms.txt''"
        "\<lparr>StatusCode = 429, Header = [''Retry-After'' \<mapsto> [''5'']], RespString = []\<rparr>"]
  by (simp add: Header_Get_def)

text \<open>
  C7, as stated, fails on the kind: the error for a 500 response and the error for a
  request that obtained no response have the same code, \<^verbatim>\<open>network_failure\<close>.
\<close>

theorem error_code_shared_counterexample:
  "map_option err_code
     (snd (Fetch (\<lambda>_. Inr \<lparr>StatusCode = 500, Header = Map.empty, RespString = []\<rparr>)
             ''https://example.com/llms.txt'')) = Some ''network_failure''
   \<and> map_option err_code
     (snd (Fetch (\<lambda>_. Inl ''connection refused'') ''https://example.com/llms.txt''))
       = Some ''network_failure''"
  by (simp add: Fetch_def builder_defs status_defs code_defs)

text \<open>
  C7, amended. Every error of \<^verbatim>\<open>Fetch\<close> has one of three codes: \<^verbatim>\<open>not_found\<close>,
  \<^verbatim>\<open>rate_limited\<close>, \<^verbatim>\<open>network_failure\<close>. The error for a status from 400 on other
  than 404 and 429 and the error for a request that obtained no response share the code
  \<^verbatim>\<open>network_failure\<close>; the two are still different values: the first has the status in
  its context and no cause, the second wraps the cause and has no status.
\<close>

theorem error_codes_of_Fetch:
  assumes "Get url = Inr resp"
    and "StatusCode resp \<ge> 400" and "StatusCode resp \<noteq> 404" and "StatusCode resp \<noteq> 429"
    and "Get' url' = Inl cause"
  shows "(\<forall>G u x. snd (Fetch G u) = Some x
            \<longrightarrow> err_code x = CodeNotFound \<or> err_code x = CodeRateLimited
                \<or> err_code x = CodeNetworkFailure)
       \<and> (\<exists>e t. snd (Fetch Get url) = Some e \<and> snd (Fetch Get' url') = Some t
              \<and> err_code e = CodeNetworkFailure \<and> err_code t = CodeNetworkFailure
              \<and> err_context e ''status'' = Some (CtxInt (StatusCode resp)) \<and> err_cause e = None
              \<and> err_context t ''status'' = None \<and> err_cause t = Some cause
              \<and> e \<noteq> t)"
proof
  show "\<forall>G u x. snd (Fetch G u) = Some x
            \<longrightarrow> err_code x = CodeNotFound \<or> err_code x = CodeRateLimited
                \<or> err_code x = CodeNetworkFailure"
    by (auto simp add: Fetch_def builder_defs split: sum.splits if_splits)
next
  show "\<exists>e t. snd (Fetch Get url) = Some e \<and> snd (Fetch Get' url') = Some t
              \<and> err_code e = CodeNetworkFailure \<and> err_code t = CodeNetworkFailure
              \<and> err_context e ''status'' = Some (CtxInt (StatusCode resp)) \<and> err_cause e = None
              \<and> err_context t ''status'' = None \<and> err_cause t = Some cause
              \<and> e \<noteq> t"
    using assms by (auto simp add: Fetch_def builder_defs status_defs)
qed

theorem error_codes_of_Fetch_witness:
  "(\<lambda>_. Inr \<lparr>StatusCode = 500, Header = Map.empty, RespString = []\<rparr>) ''https://example.com/llms.txt''
     = (Inr \<lparr>StatusCode = 500, Header = Map.empty, RespString = []\<rparr> :: GoError + Response)
   \<and> StatusCode \<lparr>StatusCode = 500, Header = Map.empty, RespString = []\<rparr> \<ge> 400
   \<and> (\<lambda>_. Inl ''connection refused'') ''https://example.com/llms.txt''
     = (Inl ''connection refused'' :: GoError + Response)
   \<and> (\<exists>e t. snd (Fetch (\<lambda>_. Inr \<lparr>StatusCode = 500, Header = Map.empty, RespString = []\<rparr>)
                   ''https://example.com/llms.txt'') = Some e
          \<and> snd (Fetch (\<lambda>_. Inl ''connection refused'') ''https://example.com/llms.txt'') = Some t
          \<and> err_code e = err_code t
          \<and> err_context e ''status'' = Some (CtxInt 500)
          \<and> err_context t ''status'' = None
          \<and> err_cause t = Some ''connection refused''
          \<and> e \<noteq> t)"
  using error_codes_of_Fetch
    [of "\<lambda>_. Inr \<lparr>StatusCode = 500, Header = Map.empty, RespString = []\<rparr>"
        "''https://example.com/llms.txt''"
        "\<lparr>StatusCode = 500, Header = Map.empty, RespString = []\<rparr>"
        "\<lambda>_. Inl ''connection refused''"
        "''https://example.com/llms.txt''"
        "''connection refused''"]
  by auto

section \<open>Properties of NewClient\<close>

lemmas client_defs = NewClient_def deref_def SetTimeout_def SetRetryCount_def
  SetRetryWaitTime_def SetRetryMaxWaitTime_def SetCircuitBreaker_def AddRetryHooks_def
  SetDebug_def OnStateChange_def NewCircuitBreakerWithCount_def Let_def

lemmas config_defs = DefaultConfig_def defaultTimeout_def defaultRetryCount_def
  defaultRetryWaitTime_def defaultRetryMaxWaitTime_def

text \<open>
  C8. \<^verbatim>\<open>NewClient\<close> never fails, whatever the configuration and the fresh client are:
  it does not panic on a \<^verbatim>\<open>nil\<close> configuration. With no configuration the client has
  the defaults: timeout 30 seconds, retry count 3, base backoff 100 milliseconds,
  maximum backoff 2 seconds.
\<close>

theorem NewClient_total_defaults:
  "(\<exists>c. NewClient new cfg = Inr c)
   \<and> (\<exists>c. NewClient new None = Inr c
          \<and> timeout c = 30 * Second \<and> retryCount c = 3
          \<and> retryWaitTime c = 100 * Millisecond \<and> retryMaxWaitTime c = 2 * Second)"
  by (cases cfg) (simp_all add: client_defs config_defs)

text \<open>
  C9. Every client built by \<^verbatim>\<open>NewClient\<close> has a circuit breaker with failure threshold
  3, success threshold 1 and reset timeout 30 seconds, whose only policy is the
  library's 5xx policy, so that every response with a status from 500 to 599 counts as
  a failure.
\<close>

theorem NewClient_circuit_breaker:
  "\<exists>c cb. NewClient new cfg = Inr c \<and> circuitBreaker c = Some cb
      \<and> failureThreshold cb = 3 \<and> successThreshold cb = 1
      \<and> resetTimeout cb = 30 * Second
      \<and> policies cb = [CircuitBreaker5xxPolicy]
      \<and> (\<forall>resp. 500 \<le> StatusCode resp \<and> StatusCode resp \<le> 599
            \<longrightarrow> (\<exists>p \<in> set (policies cb). p resp))"
  by (cases cfg)
    (simp_all add: client_defs cbFailureThreshold_def cbSuccessThreshold_def cbResetTimeout_def
       CircuitBreaker5xxPolicy_def)

theorem NewClient_circuit_breaker_witness:
  "500 \<le> StatusCode \<lparr>StatusCode = 503, Header = Map.empty, RespString = []\<rparr>
   \<and> StatusCode \<lparr>StatusCode = 503, Header = Map.empty, RespString = []\<rparr> \<le> 599
   \<and> (\<exists>c cb. NewClient
          \<lparr>timeout = 0, retryCount = 0, retryWaitTime = 0, retryMaxWaitTime = 0,
           circuitBreaker = None, retryHooks = [], debug = False\<rparr> None = Inr c
        \<and> circuitBreaker c = Some cb
        \<and> failureThreshold cb = 3 \<and> successThreshold cb = 1
        \<and> resetTimeout cb = 30000000000
        \<and> (\<exists>p \<in> set (policies cb). p \<lparr>StatusCode = 503, Header = Map.empty, RespString = []\<rparr>))"
  using NewClient_circuit_breaker
    [of "\<lparr>timeout = 0, retryCount = 0, retryWaitTime = 0, retryMaxWaitTime = 0,
           circuitBreaker = None, retryHooks = [], debug = False\<rparr>" None]
  by (auto simp add: Second_def Millisecond_def)

end
